theory Spec2Isabelle
  imports Complex_Main "HOL-Library.Log_Nat" "HOL-Library.Multiset"
begin

section \<open>Apple Pay utilities of the smart payment buttons: \<^verbatim>\<open>src/payment-flows/applepay/utils.js\<close>\<close>

text \<open>
  The module is a handful of pure JavaScript functions. They are embedded as HOL functions
  over records whose fields follow the objects the code reads and builds.

  Conventions of the embedding:
  \<^item> a JavaScript string is a \<^typ>\<open>string\<close>; the model covers ASCII text, and the built-in
    \<^verbatim>\<open>toLowerCase\<close>, \<^verbatim>\<open>toUpperCase\<close> and the white space of \<^verbatim>\<open>parseFloat\<close> are modelled on
    the ASCII range (a character above 127 is kept as it is and is no white space);
  \<^item> an optional property is an \<^typ>\<open>'a option\<close>, \<^term>\<open>None\<close> standing for \<^verbatim>\<open>undefined\<close>; where
    the code can produce both \<^verbatim>\<open>null\<close> and \<^verbatim>\<open>undefined\<close> the three-valued type \<open>maybe\<close> is used;
  \<^item> a list built by \<^verbatim>\<open>push\<close> is passed along and returned extended;
  \<^item> what the module imports from elsewhere (the \<^verbatim>\<open>COUNTRY\<close> table of the SDK constants, the
    engine's \<^verbatim>\<open>Array.prototype.sort\<close>, \<^verbatim>\<open>JSON.stringify\<close> and \<^verbatim>\<open>JSON.parse\<close>) is a parameter.
\<close>

subsection \<open>JavaScript values and built-ins\<close>

text \<open>Truthiness of an optional string: \<^verbatim>\<open>undefined\<close> and the empty string are falsy.\<close>

definition truthy :: "string option \<Rightarrow> bool" where
  "truthy v = (case v of None \<Rightarrow> False | Some s \<Rightarrow> s \<noteq> [])"

text \<open>\<^verbatim>\<open>a || b\<close> on an optional string with a string default.\<close>

definition orElse :: "string option \<Rightarrow> string \<Rightarrow> string" where
  "orElse v d = (case v of None \<Rightarrow> d | Some s \<Rightarrow> if s = [] then d else s)"

text \<open>A value that may be \<^verbatim>\<open>null\<close> or \<^verbatim>\<open>undefined\<close>; \<^verbatim>\<open>===\<close> on such values is equality.\<close>

datatype 'a maybe = Null | Undefined | Def 'a

definition truthyMaybe :: "string maybe \<Rightarrow> bool" where
  "truthyMaybe v = (case v of Null \<Rightarrow> False | Undefined \<Rightarrow> False | Def s \<Rightarrow> s \<noteq> [])"

text \<open>\<^verbatim>\<open>String.prototype.toLowerCase\<close> and \<^verbatim>\<open>toUpperCase\<close> on ASCII letters.\<close>

definition toLowerCaseChar :: "char \<Rightarrow> char" where
  "toLowerCaseChar c =
     (let n = (of_char c :: nat) in if 65 \<le> n \<and> n \<le> 90 then char_of (n + 32) else c)"

definition toLowerCase :: "string \<Rightarrow> string" where
  "toLowerCase s = map toLowerCaseChar s"

definition toUpperCaseChar :: "char \<Rightarrow> char" where
  "toUpperCaseChar c =
     (let n = (of_char c :: nat) in if 97 \<le> n \<and> n \<le> 122 then char_of (n - 32) else c)"

definition toUpperCase :: "string \<Rightarrow> string" where
  "toUpperCase s = map toUpperCaseChar s"

text \<open>\<^verbatim>\<open>s.replace(/_/g, '')\<close>: every underscore is removed.\<close>

definition removeUnderscores :: "string \<Rightarrow> string" where
  "removeUnderscores s = filter (\<lambda>c. c \<noteq> CHR ''_'') s"

subsection \<open>Numbers: \<^verbatim>\<open>parseFloat\<close> and \<^verbatim>\<open>Number.prototype.toFixed\<close>\<close>

text \<open>
  A Number is NaN, an infinity or a finite binary64 value. A finite value is its sign
  (\<^term>\<open>True\<close> for negative, so that \<open>-0\<close> is \<open>Finite True 0\<close>) and its magnitude, a rational.
\<close>

datatype number = NaN | Infinity bool | Finite bool rat

definition pow2 :: "int \<Rightarrow> rat" where
  "pow2 e = (if 0 \<le> e then 2 ^ nat e else 1 / 2 ^ nat (- e))"

definition pow10 :: "int \<Rightarrow> rat" where
  "pow10 e = (if 0 \<le> e then 10 ^ nat e else 1 / 10 ^ nat (- e))"

text \<open>The integer \<open>e\<close> with \<open>2^e \<le> q < 2^(e+1)\<close>, for a positive \<open>q\<close>.\<close>

definition floorLog2 :: "rat \<Rightarrow> int" where
  "floorLog2 q =
     (let (a, b) = quotient_of q; d = bitlen a - bitlen b
      in if pow2 d \<le> q then d else d - 1)"

definition roundTiesToEven :: "rat \<Rightarrow> int" where
  "roundTiesToEven q =
     (let f = \<lfloor>q\<rfloor>; r = q - of_int f
      in if r < 1 / 2 then f else if 1 / 2 < r then f + 1 else if even f then f else f + 1)"

text \<open>
  The Number value of a non-negative mathematical value: IEEE 754 binary64, round to
  nearest, ties to even. The unit in the last place is \<open>2^(e - 52)\<close> for a normal value of
  exponent \<open>e\<close> and \<open>2^(-1074)\<close> for a subnormal one; a result of \<open>2^1024\<close> or more is infinite.
\<close>

definition numberValue :: "rat \<Rightarrow> number" where
  "numberValue q =
     (if q \<le> 0 then Finite False 0
      else let e = max (floorLog2 q) (- 1022) - 52;
               r = of_int (roundTiesToEven (q / pow2 e)) * pow2 e
           in if pow2 1024 \<le> r then Infinity False else Finite False r)"

text \<open>The sign of a \<^verbatim>\<open>StrDecimalLiteral\<close> applied to the value of its unsigned part.\<close>

definition signed :: "bool \<Rightarrow> number \<Rightarrow> number" where
  "signed negative x =
     (case x of NaN \<Rightarrow> NaN | Infinity _ \<Rightarrow> Infinity negative | Finite _ m \<Rightarrow> Finite negative m)"

definition isStrWhiteSpaceChar :: "char \<Rightarrow> bool" where
  "isStrWhiteSpaceChar c = (let n = (of_char c :: nat) in (9 \<le> n \<and> n \<le> 13) \<or> n = 32)"

definition isDecimalDigit :: "char \<Rightarrow> bool" where
  "isDecimalDigit c = (let n = (of_char c :: nat) in 48 \<le> n \<and> n \<le> 57)"

definition digitValue :: "char \<Rightarrow> int" where
  "digitValue c = of_char c - 48"

definition decimalDigitsMV :: "string \<Rightarrow> int" where
  "decimalDigitsMV ds = foldl (\<lambda>acc c. 10 * acc + digitValue c) 0 ds"

text \<open>\<^verbatim>\<open>SignedInteger\<close>: the value of the digits after an optional sign, if there is a digit.\<close>

definition signedInteger :: "string \<Rightarrow> int option" where
  "signedInteger s =
     (let (negative, rest) =
            (case s of
               [] \<Rightarrow> (False, [])
             | c # r \<Rightarrow> if c = CHR ''-'' then (True, r)
                        else if c = CHR ''+'' then (False, r) else (False, s));
          ds = takeWhile isDecimalDigit rest
      in if ds = [] then None
         else Some (if negative then - decimalDigitsMV ds else decimalDigitsMV ds))"

text \<open>
  The exponent of the longest \<^verbatim>\<open>ExponentPart\<close> the text starts with, \<open>0\<close> when it starts with
  none (an \<^verbatim>\<open>e\<close> with no digit behind it belongs to no literal).
\<close>

definition exponentPart :: "string \<Rightarrow> int" where
  "exponentPart s =
     (case s of
        [] \<Rightarrow> 0
      | c # r \<Rightarrow> if c = CHR ''e'' \<or> c = CHR ''E''
                 then (case signedInteger r of None \<Rightarrow> 0 | Some e \<Rightarrow> e)
                 else 0)"

text \<open>
  \<^verbatim>\<open>parseFloat\<close>: leading white space is dropped, the longest prefix that is a
  \<^verbatim>\<open>StrDecimalLiteral\<close> is read (a sign, then \<^verbatim>\<open>Infinity\<close>, or digits with an optional
  fraction and exponent, or a dot with digits and an optional exponent), and its
  mathematical value is rounded to a Number. No such prefix gives NaN. The value is
  rounded exactly, as the engines do (the language standard leaves the choice between two
  neighbours open for a literal of more than 20 significant digits).
\<close>

definition parseFloat :: "string \<Rightarrow> number" where
  "parseFloat inputString =
     (let trimmed = dropWhile isStrWhiteSpaceChar inputString;
          (negative, unsigned) =
            (case trimmed of
               [] \<Rightarrow> (False, [])
             | c # r \<Rightarrow> if c = CHR ''-'' then (True, r)
                        else if c = CHR ''+'' then (False, r) else (False, trimmed))
      in if take 8 unsigned = ''Infinity'' then Infinity negative
         else
           let intDigits = takeWhile isDecimalDigit unsigned;
               afterInt = dropWhile isDecimalDigit unsigned;
               hasDot = (case afterInt of [] \<Rightarrow> False | c # _ \<Rightarrow> c = CHR ''.'');
               fracDigits = (if hasDot then takeWhile isDecimalDigit (tl afterInt) else []);
               rest = (if hasDot then dropWhile isDecimalDigit (tl afterInt) else afterInt)
           in if intDigits = [] \<and> fracDigits = [] then NaN
              else signed negative
                     (numberValue
                        (of_int (decimalDigitsMV (intDigits @ fracDigits))
                           * pow10 (exponentPart rest - int (length fracDigits)))))"

text \<open>The decimal representation of a non-negative integer, with no leading zero.\<close>

function decimalDigits :: "int \<Rightarrow> string" where
  "decimalDigits n =
     (if n < 10 then [char_of (48 + n)]
      else decimalDigits (n div 10) @ [char_of (48 + n mod 10)])"
  by pat_completeness auto
termination
  by (relation "measure nat") auto

declare decimalDigits.simps [simp del]

text \<open>
  The result of \<^verbatim>\<open>toFixed\<close> is a string. For a magnitude of \<open>10^21\<close> or more the built-in
  returns the exponential notation of the number; that string is not spelled out here: it
  is the value \<open>Exponential\<close>, different from every string in fixed notation (it starts with
  a digit from 1 to 9 and holds an \<^verbatim>\<open>e\<close>).
\<close>

datatype numeric_string = Str string | Exponential bool rat

text \<open>
  \<^verbatim>\<open>Number.prototype.toFixed(f)\<close> for \<open>f \<le> 100\<close> (the code passes 2): \<open>n\<close> is the integer
  nearest to \<open>x * 10^f\<close>, the larger one of two; its digits are padded with zeros to
  \<open>f + 1\<close> characters and the dot is set before the last \<open>f\<close>.
\<close>

definition toFixed :: "nat \<Rightarrow> number \<Rightarrow> numeric_string" where
  "toFixed f x =
     (case x of
        NaN \<Rightarrow> Str ''NaN''
      | Infinity negative \<Rightarrow> Str ((if negative then ''-'' else []) @ ''Infinity'')
      | Finite negative mag \<Rightarrow>
          if 10 ^ 21 \<le> mag then Exponential (negative \<and> 0 < mag) mag
          else
            let s = (if negative \<and> 0 < mag then ''-'' else []);
                n = \<lfloor>mag * 10 ^ f + 1 / 2\<rfloor>;
                m = decimalDigits n;
                k = length m;
                z = (if k \<le> f then replicate (f + 1 - k) CHR ''0'' @ m else m);
                a = take (length z - f) z;
                b = drop (length z - f) z
            in Str (s @ (if f \<noteq> 0 then a @ ''.'' @ b else m)))"

subsection \<open>The functions of the module\<close>

text \<open>\<^verbatim>\<open>isZeroAmount\<close>: \<^verbatim>\<open>parseFloat(value).toFixed(2) === '0.00'\<close>.\<close>

definition isZeroAmount :: "string \<Rightarrow> bool" where
  "isZeroAmount v = (toFixed 2 (parseFloat v) = Str ''0.00'')"

text \<open>
  \<^verbatim>\<open>validNetworks\<close>, the object literal of \<^verbatim>\<open>getSupportedNetworksFromIssuers\<close>: its keys in
  the order written, each with its value.
\<close>

definition validNetworks :: "(string \<times> string) list" where
  "validNetworks =
     [(''discover'', ''discover''),
      (''visa'', ''visa''),
      (''mastercard'', ''masterCard''),
      (''amex'', ''amex''),
      (''cb_nationale'', ''cartesBancaires''),
      (''maestro'', ''maestro''),
      (''jcb'', ''jcb'')]"

text \<open>
  \<^verbatim>\<open>validateIssuers\<close>, the callback of \<^verbatim>\<open>forEach\<close>; the list \<^verbatim>\<open>validIssuers\<close> it pushes to
  is passed in and returned. \<^verbatim>\<open>Object.keys(validNetworks).includes(network)\<close> is membership
  in the keys; \<^verbatim>\<open>validNetworks[network]\<close> is then the value of that key.
\<close>

definition validateIssuers :: "string list \<Rightarrow> string \<Rightarrow> string list" where
  "validateIssuers validIssuers issuer =
     (let network = removeUnderscores (toLowerCase issuer)
      in if network \<in> set (map fst validNetworks)
         then (case map_of validNetworks network of
                 Some n \<Rightarrow> validIssuers @ [n]
               | None \<Rightarrow> validIssuers)
         else validIssuers)"

text \<open>An absent argument takes the default \<^verbatim>\<open>[]\<close>.\<close>

definition getSupportedNetworksFromIssuers :: "string list option \<Rightarrow> string list" where
  "getSupportedNetworksFromIssuers issuersArg =
     (let issuers = (case issuersArg of None \<Rightarrow> [] | Some xs \<Rightarrow> xs)
      in foldl validateIssuers [] issuers)"

text \<open>
  The types of the objects (\<^verbatim>\<open>ShippingAddress\<close>, \<^verbatim>\<open>ShippingMethod\<close>, \<^verbatim>\<open>ApplePayPaymentContact\<close>
  and the others) are imported by the module and not part of it. The records hold the
  properties the code reads or writes; a property is optional where the code reads it
  through a guard (\<^verbatim>\<open>?.\<close>, \<^verbatim>\<open>||\<close>, a truth test) or may copy \<^verbatim>\<open>undefined\<close>.
\<close>

record ShippingAddress =
  firstName :: "string option"
  lastName :: "string option"
  line1 :: "string option"
  line2 :: "string option"
  city :: "string option"
  state :: "string option"
  postalCode :: "string option"
  country :: "string option"

text \<open>
  A payment contact. Every property is optional, so that the object \<^verbatim>\<open>{}\<close> is the contact
  with no property set.
\<close>

record ApplePayPaymentContact =
  givenName :: "string option"
  familyName :: "string option"
  addressLines :: "string option list option"
  locality :: "string option"
  administrativeArea :: "string option"
  postalCode :: "string option"
  country :: "string option"
  countryCode :: "string option"

definition emptyObject :: ApplePayPaymentContact where
  "emptyObject =
     \<lparr>givenName = None, familyName = None, addressLines = None, locality = None,
      administrativeArea = None, postalCode = None, country = None, countryCode = None\<rparr>"

definition getShippingContactFromAddress :: "ShippingAddress option \<Rightarrow> ApplePayPaymentContact" where
  "getShippingContactFromAddress shippingAddress =
     (case shippingAddress of
        None \<Rightarrow>
          \<lparr>givenName = Some [], familyName = Some [], addressLines = Some [],
           locality = Some [], administrativeArea = Some [], postalCode = Some [],
           country = Some [], countryCode = Some []\<rparr>
      | Some a \<Rightarrow>
          \<lparr>givenName = firstName a, familyName = lastName a,
           addressLines = Some [line1 a, line2 a],
           locality = ShippingAddress.city a, administrativeArea = ShippingAddress.state a,
           postalCode = ShippingAddress.postalCode a,
           country = ShippingAddress.country a, countryCode = ShippingAddress.country a\<rparr>)"

record Amount =
  currencyCode :: "string option"
  currencyValue :: "string option"

record ShippingMethod =
  id' :: "string option"
  amount :: "Amount option"
  label :: string
  selected :: bool
  type' :: string

record ApplePayShippingMethod =
  amount :: string
  detail :: string
  identifier' :: string
  label :: string

text \<open>
  The comparison function handed to \<^verbatim>\<open>sort\<close>: \<^verbatim>\<open>method => method.selected ? -1 : 0\<close>. It
  reads its first argument only.
\<close>

definition compareSelected :: "ShippingMethod \<Rightarrow> ShippingMethod \<Rightarrow> int" where
  "compareSelected method other = (if selected method then - 1 else 0)"

definition toApplePayShippingMethod :: "ShippingMethod \<Rightarrow> ApplePayShippingMethod" where
  "toApplePayShippingMethod method =
     \<lparr>amount = orElse (Option.bind (ShippingMethod.amount method) currencyValue) ''0.00'',
      detail = type' method,
      identifier' = orElse (id' method) [],
      label = ShippingMethod.label method\<rparr>"

text \<open>
  \<^verbatim>\<open>getApplePayShippingMethods\<close>. The order \<^verbatim>\<open>Array.prototype.sort\<close> leaves the copy in depends
  on the engine when the comparison function is not a consistent one, as here; the sort is
  the parameter \<open>arraySort\<close>.
\<close>

definition getApplePayShippingMethods ::
  "((ShippingMethod \<Rightarrow> ShippingMethod \<Rightarrow> int) \<Rightarrow> ShippingMethod list \<Rightarrow> ShippingMethod list)
     \<Rightarrow> ShippingMethod list option \<Rightarrow> ApplePayShippingMethod list" where
  "getApplePayShippingMethods arraySort shippingMethodsArg =
     (let shippingMethods = (case shippingMethodsArg of None \<Rightarrow> [] | Some xs \<Rightarrow> xs)
      in map toApplePayShippingMethod (arraySort compareSelected shippingMethods))"

definition getMerchantCapabilities :: "string list option \<Rightarrow> string list" where
  "getMerchantCapabilities supportedNetworksArg =
     (let supportedNetworks = (case supportedNetworksArg of None \<Rightarrow> [] | Some xs \<Rightarrow> xs);
          merchantCapabilities = [''supports3DS'', ''supportsCredit'', ''supportsDebit'']
      in if ''chinaUnionPay'' \<in> set supportedNetworks
         then merchantCapabilities @ [''supportsEMV'']
         else merchantCapabilities)"

text \<open>
  The order as \<^verbatim>\<open>createApplePayRequest\<close> receives it. The destructuring pattern of the
  function reads a property of the order, of its checkout session, of the flags, of the
  cart, of the amounts and of each of the four amounts. In these records each of those
  objects may be \<^verbatim>\<open>undefined\<close> or \<^verbatim>\<open>null\<close>. For the two lists \<^verbatim>\<open>undefined\<close> and \<^verbatim>\<open>null\<close> are told
  apart: they are handed to parameters with a default value, and a default value replaces
  \<^verbatim>\<open>undefined\<close> only. The records that follow them are the same objects once the pattern has
  been matched.
\<close>

record FlagsObject =
  isShippingAddressRequired :: bool

record AmountsObject =
  shippingAndHandling :: "Amount option"
  tax :: "Amount option"
  subtotal :: "Amount option"
  total :: "Amount option"

record CartObject =
  amounts :: "AmountsObject option"
  shippingAddress :: "ShippingAddress option"
  shippingMethods :: "ShippingMethod list maybe"

record CheckoutSessionObject =
  flags :: "FlagsObject option"
  allowedCardIssuers :: "string list maybe"
  cart :: "CartObject option"

record OrderObject =
  checkoutSession :: "CheckoutSessionObject option"

record Flags =
  isShippingAddressRequired :: bool

record Amounts =
  shippingAndHandling :: Amount
  tax :: Amount
  subtotal :: Amount
  total :: Amount

record Cart =
  amounts :: Amounts
  shippingAddress :: "ShippingAddress option"
  shippingMethods :: "ShippingMethod list option"

record CheckoutSession =
  flags :: Flags
  allowedCardIssuers :: "string list option"
  cart :: Cart

record DetailedOrderInfo =
  checkoutSession :: CheckoutSession

record LineItem =
  label :: string
  amount :: string

record TotalItem =
  label :: string
  amount :: "string option"
  type' :: string

record ApplePayPaymentRequest =
  countryCode :: string
  currencyCode :: "string option"
  merchantCapabilities :: "string list"
  supportedNetworks :: "string list"
  requiredBillingContactFields :: "string list"
  requiredShippingContactFields :: "string list"
  shippingContact :: ApplePayPaymentContact
  shippingMethods :: "ApplePayShippingMethod list"
  lineItems :: "LineItem list"
  total :: TotalItem

text \<open>
  \<^verbatim>\<open>result.lineItems.push({ label, amount })\<close> under the guard \<^verbatim>\<open>value && cond\<close>: the item is
  pushed when the value is a non-empty string and the condition holds for it.
\<close>

definition pushLineItem ::
  "string \<Rightarrow> string option \<Rightarrow> (string \<Rightarrow> bool) \<Rightarrow> ApplePayPaymentRequest \<Rightarrow> ApplePayPaymentRequest" where
  "pushLineItem l v cond result =
     (case v of
        None \<Rightarrow> result
      | Some a \<Rightarrow>
          if a \<noteq> [] \<and> cond a
          then result\<lparr>lineItems := lineItems result @ [\<lparr>LineItem.label = l, LineItem.amount = a\<rparr>]\<rparr>
          else result)"

definition createApplePayRequest ::
  "((ShippingMethod \<Rightarrow> ShippingMethod \<Rightarrow> int) \<Rightarrow> ShippingMethod list \<Rightarrow> ShippingMethod list)
     \<Rightarrow> string \<Rightarrow> DetailedOrderInfo \<Rightarrow> ApplePayPaymentRequest" where
  "createApplePayRequest arraySort countryCodeArg order =
     (let session = checkoutSession order;
          isRequired = isShippingAddressRequired (flags session);
          issuers = allowedCardIssuers session;
          shippingValue = currencyValue (shippingAndHandling (amounts (cart session)));
          taxValue = currencyValue (tax (amounts (cart session)));
          subtotalValue = currencyValue (subtotal (amounts (cart session)));
          currencyCodeV = Amount.currencyCode (Amounts.total (amounts (cart session)));
          totalValue = currencyValue (Amounts.total (amounts (cart session)));
          address = shippingAddress (cart session);
          methods = Cart.shippingMethods (cart session);
          networks = getSupportedNetworksFromIssuers issuers;
          contact = getShippingContactFromAddress address;
          applePayShippingMethods = getApplePayShippingMethods arraySort methods;
          capabilities = getMerchantCapabilities (Some networks);
          selectedShippingMethod =
            find selected (case methods of None \<Rightarrow> [] | Some xs \<Rightarrow> xs);
          result =
            \<lparr>countryCode = countryCodeArg,
             currencyCode = currencyCodeV,
             merchantCapabilities = capabilities,
             supportedNetworks = networks,
             requiredBillingContactFields = [''postalAddress'', ''name'', ''phone''],
             requiredShippingContactFields =
               (if isRequired then [''postalAddress'', ''name'', ''phone'', ''email'']
                else [''name'', ''phone'', ''email'']),
             shippingContact = (if truthy (givenName contact) then contact else emptyObject),
             shippingMethods = applePayShippingMethods,
             lineItems = [],
             total = \<lparr>label = ''Total'', amount = totalValue, type' = ''final''\<rparr>\<rparr>;
          result1 = pushLineItem ''Subtotal'' subtotalValue (\<lambda>a. \<not> isZeroAmount a) result;
          result2 = pushLineItem ''Sales Tax'' taxValue (\<lambda>a. \<not> isZeroAmount a) result1;
          isPickup =
            (case selectedShippingMethod of
               None \<Rightarrow> False
             | Some m \<Rightarrow> ShippingMethod.type' m = ''PICKUP'')
      in pushLineItem ''Shipping'' shippingValue (\<lambda>a. \<not> isZeroAmount a \<or> isPickup) result2)"









text \<open>
  \<^verbatim>\<open>isJSON\<close>. \<^verbatim>\<open>JSON.stringify\<close> and \<^verbatim>\<open>JSON.parse\<close> are parameters that return a value or
  raise (\<^term>\<open>Inl\<close>). The \<^verbatim>\<open>try\<close> block runs them in sequence and returns \<^verbatim>\<open>true\<close>; the
  \<^verbatim>\<open>catch\<close> block turns whatever was raised into \<^verbatim>\<open>false\<close>.
\<close>

definition isJSON :: "('o \<Rightarrow> 'e + 's) \<Rightarrow> ('s \<Rightarrow> 'e + 'v) \<Rightarrow> 'o \<Rightarrow> 'e + bool" where
  "isJSON stringify parse json =
     (case (case stringify json of
              Inl e \<Rightarrow> Inl e
            | Inr s \<Rightarrow> (case parse s of Inl e \<Rightarrow> Inl e | Inr _ \<Rightarrow> Inr True))
      of Inl _ \<Rightarrow> Inr False
       | Inr b \<Rightarrow> Inr b)"

record ApplePayError =
  code :: string
  contactField :: string
  message :: string

record Shipping_Address =
  city :: "string option"
  state :: "string option"
  country_code :: "string maybe"
  postal_code :: "string option"

record ShippingContactValidation =
  errors :: "ApplePayError list"
  shipping_address :: Shipping_Address

text \<open>
  \<^verbatim>\<open>COUNTRY[key]\<close> on the imported table, a map from country codes to the table's values: a
  key the table lacks reads as \<^verbatim>\<open>undefined\<close>. (An upper-cased key names no inherited
  property of an object.)
\<close>

definition property :: "(string \<rightharpoonup> string) \<Rightarrow> string \<Rightarrow> string maybe" where
  "property table key = (case table key of None \<Rightarrow> Undefined | Some v \<Rightarrow> Def v)"

definition validateShippingContact ::
  "(string \<rightharpoonup> string) \<Rightarrow> ApplePayPaymentContact option \<Rightarrow> ShippingContactValidation" where
  "validateShippingContact COUNTRY contact =
     (let localityV = Option.bind contact locality;
          countryCodeV = Option.bind contact ApplePayPaymentContact.countryCode;
          administrativeAreaV = Option.bind contact administrativeArea;
          postalCodeV = Option.bind contact ApplePayPaymentContact.postalCode;
          errors0 = [];
          errors1 =
            (if \<not> truthy localityV
             then errors0 @ [\<lparr>code = ''shippingContactInvalid'', contactField = ''locality'',
                              message = ''City is invalid''\<rparr>]
             else errors0);
          country_codeV =
            (case countryCodeV of
               None \<Rightarrow> Null
             | Some c \<Rightarrow> if c \<noteq> [] then property COUNTRY (toUpperCase c) else Null);
          errors2 =
            (if \<not> truthyMaybe country_codeV
             then errors1 @ [\<lparr>code = ''shippingContactInvalid'', contactField = ''countryCode'',
                              message = ''Country code is invalid''\<rparr>]
             else errors1);
          errors3 =
            (if country_codeV = property COUNTRY ''US'' \<and> \<not> truthy administrativeAreaV
             then errors2 @ [\<lparr>code = ''shippingContactInvalid'',
                              contactField = ''administrativeArea'',
                              message = ''State is invalid''\<rparr>]
             else errors2);
          errors4 =
            (if \<not> truthy postalCodeV
             then errors3 @ [\<lparr>code = ''shippingContactInvalid'', contactField = ''postalCode'',
                              message = ''Postal code is invalid''\<rparr>]
             else errors3)
      in \<lparr>errors = errors4,
          shipping_address =
            \<lparr>city = localityV, state = administrativeAreaV,
             country_code = country_codeV, postal_code = postalCodeV\<rparr>\<rparr>)"

subsection \<open>Concrete inputs for the parameters\<close>

text \<open>Two entries of the SDK's country table, each code with itself as its value.\<close>

definition exampleCountries :: "(string \<times> string) list" where
  "exampleCountries = [(''FR'', ''FR''), (''US'', ''US'')]"

text \<open>
  Insertion from the left: an element moves in front of the earlier ones for which the
  comparison function, given the earlier element first, is positive. It is the sort in the
  examples of the request, where the order of the shipping methods plays no part.
\<close>

definition insertLast :: "('a \<Rightarrow> 'a \<Rightarrow> int) \<Rightarrow> 'a list \<Rightarrow> 'a \<Rightarrow> 'a list" where
  "insertLast comparefn prefix x =
     (let r = rev prefix
      in rev (dropWhile (\<lambda>y. 0 < comparefn y x) r) @ [x] @ rev (takeWhile (\<lambda>y. 0 < comparefn y x) r))"

definition insertionSort :: "('a \<Rightarrow> 'a \<Rightarrow> int) \<Rightarrow> 'a list \<Rightarrow> 'a list" where
  "insertionSort comparefn xs = foldl (insertLast comparefn) [] xs"

subsection \<open>\<^verbatim>\<open>Array.prototype.sort\<close> as the engines run it\<close>













subsection \<open>Example contacts, shipping methods and orders\<close>

text \<open>A contact the wallet may return, its country code in lower case.\<close>

definition exampleContact :: ApplePayPaymentContact where
  "exampleContact =
     \<lparr>givenName = Some ''Ada'', familyName = Some ''Byron'',
      addressLines = Some [Some ''1 rue de la Paix'', None],
      locality = Some ''Paris'', administrativeArea = Some ''IDF'',
      postalCode = Some ''75002'', country = Some ''France'', countryCode = Some ''fr''\<rparr>"

text \<open>Two shipping methods: standard shipping, and a free pickup that is selected.\<close>

definition standardMethod :: ShippingMethod where
  "standardMethod =
     \<lparr>id' = Some ''1'',
      amount = Some \<lparr>Amount.currencyCode = Some ''USD'', currencyValue = Some ''4.99''\<rparr>,
      label = ''Standard'', selected = False, type' = ''SHIPPING''\<rparr>"

definition pickupMethod :: ShippingMethod where
  "pickupMethod =
     \<lparr>id' = None, amount = None,
      label = ''Pickup in store'', selected = True, type' = ''PICKUP''\<rparr>"

definition usd :: "string \<Rightarrow> Amount" where
  "usd v = \<lparr>Amount.currencyCode = Some ''USD'', currencyValue = Some v\<rparr>"

text \<open>
  An order: subtotal 0.00, tax 5.00, shipping 0.00, total 5.00, the shipping methods as
  given, an address on file.
\<close>

definition exampleOrder :: "ShippingMethod list option \<Rightarrow> DetailedOrderInfo" where
  "exampleOrder methods =
     \<lparr>checkoutSession =
        \<lparr>flags = \<lparr>isShippingAddressRequired = True\<rparr>,
         allowedCardIssuers = Some [''VISA'', ''MASTER_CARD'', ''CHINA_UNION_PAY'', ''CB_NATIONALE''],
         cart =
           \<lparr>amounts =
              \<lparr>shippingAndHandling = usd ''0.00'', tax = usd ''5.00'',
               subtotal = usd ''0.00'', total = usd ''5.00''\<rparr>,
            shippingAddress =
              Some \<lparr>firstName = Some ''Ada'', lastName = Some ''Byron'',
                    line1 = Some ''1 Main St'', line2 = None, city = Some ''San Jose'',
                    state = Some ''CA'', postalCode = Some ''95131'', country = Some ''US''\<rparr>,
            shippingMethods = methods\<rparr>\<rparr>\<rparr>"



section \<open>Properties\<close>

subsection \<open>Supported networks and merchant capabilities\<close>

lemma removeUnderscores_no_underscore: "CHR ''_'' \<notin> set (removeUnderscores s)"
  by (simp add: removeUnderscores_def)

lemma validateIssuers_append:
  "validateIssuers acc issuer =
     acc @ (case map_of validNetworks (removeUnderscores (toLowerCase issuer)) of
              Some n \<Rightarrow> [n] | None \<Rightarrow> [])"
proof -
  have "(k \<in> set (map fst validNetworks)) = (map_of validNetworks k \<noteq> None)" for k
    by (simp add: map_of_eq_None_iff)
  then show ?thesis
    by (auto simp: validateIssuers_def Let_def split: option.splits)
qed

lemma foldl_validateIssuers:
  "foldl validateIssuers acc issuers =
     acc @ concat (map (\<lambda>issuer. case map_of validNetworks (removeUnderscores (toLowerCase issuer)) of
                          Some n \<Rightarrow> [n] | None \<Rightarrow> []) issuers)"
  by (induction issuers arbitrary: acc) (simp_all add: validateIssuers_append)

lemma getSupportedNetworksFromIssuers_concat:
  "getSupportedNetworksFromIssuers (Some issuers) =
     concat (map (\<lambda>issuer. case map_of validNetworks (removeUnderscores (toLowerCase issuer)) of
                    Some n \<Rightarrow> [n] | None \<Rightarrow> []) issuers)"
  by (simp add: getSupportedNetworksFromIssuers_def foldl_validateIssuers)

lemma getSupportedNetworksFromIssuers_absent: "getSupportedNetworksFromIssuers None = []"
  by (simp add: getSupportedNetworksFromIssuers_def)

lemma map_of_validNetworks_cases:
  "map_of validNetworks k = Some n \<Longrightarrow>
     (k, n) \<in> {(''discover'', ''discover''), (''visa'', ''visa''), (''mastercard'', ''masterCard''),
       (''amex'', ''amex''), (''cb_nationale'', ''cartesBancaires''), (''maestro'', ''maestro''),
       (''jcb'', ''jcb'')}"
  by (drule map_of_SomeD) (simp add: validNetworks_def)

lemma network_of_issuer:
  assumes "map_of validNetworks (removeUnderscores (toLowerCase issuer)) = Some n"
  shows "n \<in> {''discover'', ''visa'', ''masterCard'', ''amex'', ''maestro'', ''jcb''}"
proof -
  have "removeUnderscores (toLowerCase issuer) \<noteq> ''cb_nationale''"
    using removeUnderscores_no_underscore [of "toLowerCase issuer"] by auto
  with map_of_validNetworks_cases [OF assms] show ?thesis by auto
qed

lemma set_getSupportedNetworksFromIssuers:
  "set (getSupportedNetworksFromIssuers issuers)
     \<subseteq> {''discover'', ''visa'', ''masterCard'', ''amex'', ''maestro'', ''jcb''}"
proof (cases issuers)
  case None
  then show ?thesis by (simp add: getSupportedNetworksFromIssuers_absent)
next
  case (Some xs)
  show ?thesis
  proof
    fix n
    assume "n \<in> set (getSupportedNetworksFromIssuers issuers)"
    then obtain issuer
      where "map_of validNetworks (removeUnderscores (toLowerCase issuer)) = Some n"
      unfolding Some getSupportedNetworksFromIssuers_concat
      by (auto split: option.splits)
    then show "n \<in> {''discover'', ''visa'', ''masterCard'', ''amex'', ''maestro'', ''jcb''}"
      by (rule network_of_issuer)
  qed
qed

text \<open>
  C1. The issuer is lower-cased and its underscores are removed before the lookup, and the
  table's key for Cartes Bancaires is \<^verbatim>\<open>cb_nationale\<close>, with an underscore: no issuer
  reaches it. The issuer \<^verbatim>\<open>CB_NATIONALE\<close> is dropped, and no list of issuers yields
  \<^verbatim>\<open>cartesBancaires\<close>.
\<close>

theorem getSupportedNetworksFromIssuers_cb_nationale:
  "getSupportedNetworksFromIssuers (Some [''CB_NATIONALE'']) = []
   \<and> ''cartesBancaires'' \<notin> set (getSupportedNetworksFromIssuers issuers)"
proof
  show "getSupportedNetworksFromIssuers (Some [''CB_NATIONALE'']) = []"
    by code_simp
  show "''cartesBancaires'' \<notin> set (getSupportedNetworksFromIssuers issuers)"
    using set_getSupportedNetworksFromIssuers [of issuers] by auto
qed

text \<open>The issuers that do reach the table: order is kept, nothing is merged.\<close>

lemma getSupportedNetworksFromIssuers_example:
  "getSupportedNetworksFromIssuers (Some [''VISA'', ''Master_Card'', ''unknown'']) = [''visa'', ''masterCard'']"
  by code_simp

lemma getMerchantCapabilities_networks:
  "getMerchantCapabilities (Some (getSupportedNetworksFromIssuers issuers)) =
     [''supports3DS'', ''supportsCredit'', ''supportsDebit'']"
proof -
  have "''chinaUnionPay'' \<notin> set (getSupportedNetworksFromIssuers issuers)"
    using set_getSupportedNetworksFromIssuers [of issuers] by auto
  then show ?thesis by (simp add: getMerchantCapabilities_def)
qed

lemma pushLineItem_networks [simp]:
  "merchantCapabilities (pushLineItem l v cond r) = merchantCapabilities r"
  "supportedNetworks (pushLineItem l v cond r) = supportedNetworks r"
  by (simp_all add: pushLineItem_def split: option.splits)

text \<open>
  C10. For every country code and order the merchant capabilities of the request are
  exactly \<^verbatim>\<open>supports3DS\<close>, \<^verbatim>\<open>supportsCredit\<close>, \<^verbatim>\<open>supportsDebit\<close>: \<^verbatim>\<open>supportsEMV\<close> is never
  among them, since the supported networks are those of \<^verbatim>\<open>getSupportedNetworksFromIssuers\<close>
  and \<^verbatim>\<open>chinaUnionPay\<close> is not one of them.
\<close>

theorem createApplePayRequest_merchantCapabilities:
  "merchantCapabilities (createApplePayRequest arraySort cc order) =
     [''supports3DS'', ''supportsCredit'', ''supportsDebit'']
   \<and> ''supportsEMV'' \<notin> set (merchantCapabilities (createApplePayRequest arraySort cc order))
   \<and> ''chinaUnionPay'' \<notin> set (supportedNetworks (createApplePayRequest arraySort cc order))
   \<and> supportedNetworks (createApplePayRequest arraySort cc order) =
       getSupportedNetworksFromIssuers (allowedCardIssuers (checkoutSession order))"
proof -
  have m: "merchantCapabilities (createApplePayRequest arraySort cc order) =
     [''supports3DS'', ''supportsCredit'', ''supportsDebit'']"
    by (simp add: createApplePayRequest_def Let_def getMerchantCapabilities_networks)
  have n: "supportedNetworks (createApplePayRequest arraySort cc order) =
       getSupportedNetworksFromIssuers (allowedCardIssuers (checkoutSession order))"
    by (simp add: createApplePayRequest_def Let_def)
  have "''chinaUnionPay'' \<notin> set (getSupportedNetworksFromIssuers (allowedCardIssuers (checkoutSession order)))"
    using set_getSupportedNetworksFromIssuers [of "allowedCardIssuers (checkoutSession order)"] by auto
  with m n show ?thesis by simp
qed

theorem createApplePayRequest_merchantCapabilities_witness:
  "merchantCapabilities (createApplePayRequest insertionSort ''US'' (exampleOrder None)) =
     [''supports3DS'', ''supportsCredit'', ''supportsDebit'']
   \<and> ''chinaUnionPay'' \<notin> set (supportedNetworks
        (createApplePayRequest insertionSort ''US'' (exampleOrder None)))"
  using createApplePayRequest_merchantCapabilities [of insertionSort "''US''" "exampleOrder None"]
  by blast

subsection \<open>Rounding to a Number\<close>

lemma pow2_power_int: "pow2 e = power_int 2 e"
  by (simp add: pow2_def power_int_def inverse_eq_divide power_one_over)

lemma pow2_pos: "0 < pow2 e"
  by (simp add: pow2_power_int)

lemma pow2_add: "pow2 (a + b) = pow2 a * pow2 b"
  by (simp add: pow2_power_int power_int_add)

lemma pow2_diff: "pow2 (a - b) = pow2 a / pow2 b"
  by (simp add: pow2_power_int power_int_diff)

lemma pow2_nat: "0 \<le> e \<Longrightarrow> pow2 e = 2 ^ nat e"
  by (simp add: pow2_def)

text \<open>\<^const>\<open>floorLog2\<close> is the exponent of its argument.\<close>

lemma floorLog2_bounds:
  assumes "0 < q"
  shows "pow2 (floorLog2 q) \<le> q \<and> q < pow2 (floorLog2 q + 1)"
proof -
  obtain a b where ab: "quotient_of q = (a, b)"
    by (cases "quotient_of q") simp
  then have b: "0 < b" and q: "q = of_int a / of_int b"
    by (simp_all add: quotient_of_denom_pos quotient_of_div)
  with assms have a: "0 < a"
    by (simp add: zero_less_divide_iff)
  define d where "d = bitlen a - bitlen b"
  have la: "pow2 (bitlen a - 1) \<le> of_int a" "of_int a < pow2 (bitlen a)"
  proof -
    have "1 \<le> bitlen a" using a by (simp add: bitlen_alt_def)
    moreover have "(2::int) ^ nat (bitlen a - 1) \<le> a" "a < 2 ^ nat (bitlen a)"
      using bitlen_bounds [OF a] by simp_all
    then have "(of_int (2 ^ nat (bitlen a - 1)) :: rat) \<le> of_int a"
      "(of_int a :: rat) < of_int (2 ^ nat (bitlen a))"
      by (simp_all only: of_int_le_iff of_int_less_iff)
    ultimately show "pow2 (bitlen a - 1) \<le> of_int a" "of_int a < pow2 (bitlen a)"
      by (simp_all add: pow2_nat)
  qed
  have lb: "pow2 (bitlen b - 1) \<le> of_int b" "of_int b < pow2 (bitlen b)"
  proof -
    have "1 \<le> bitlen b" using b by (simp add: bitlen_alt_def)
    moreover have "(2::int) ^ nat (bitlen b - 1) \<le> b" "b < 2 ^ nat (bitlen b)"
      using bitlen_bounds [OF b] by simp_all
    then have "(of_int (2 ^ nat (bitlen b - 1)) :: rat) \<le> of_int b"
      "(of_int b :: rat) < of_int (2 ^ nat (bitlen b))"
      by (simp_all only: of_int_le_iff of_int_less_iff)
    ultimately show "pow2 (bitlen b - 1) \<le> of_int b" "of_int b < pow2 (bitlen b)"
      by (simp_all add: pow2_nat)
  qed
  have bpos: "(0::rat) < of_int b" using b by simp
  have upper: "q < pow2 (d + 1)"
  proof -
    have "q * of_int b = of_int a" using bpos by (simp add: q)
    also have "\<dots> < pow2 (bitlen a)" by (rule la)
    also have "\<dots> = pow2 (d + 1) * pow2 (bitlen b - 1)"
      by (simp add: d_def flip: pow2_add)
    also have "\<dots> \<le> pow2 (d + 1) * of_int b"
      using lb(1) pow2_pos [of "d + 1"] by (simp add: mult_left_mono less_imp_le)
    finally show ?thesis using bpos by simp
  qed
  have lower: "pow2 (d - 1) < q"
  proof -
    have "pow2 (d - 1) * of_int b < pow2 (d - 1) * pow2 (bitlen b)"
      using lb(2) pow2_pos [of "d - 1"] by (simp add: mult_strict_left_mono)
    also have "\<dots> = pow2 (bitlen a - 1)"
      by (simp add: d_def flip: pow2_add)
    also have "\<dots> \<le> of_int a" by (rule la)
    also have "\<dots> = q * of_int b" using bpos by (simp add: q)
    finally show ?thesis using bpos by simp
  qed
  have "floorLog2 q = (if pow2 d \<le> q then d else d - 1)"
    by (simp add: floorLog2_def ab d_def Let_def)
  with upper lower show ?thesis
    by (auto simp: less_imp_le)
qed

text \<open>Rounding moves a value by at most one half and keeps an integer.\<close>

lemma roundTiesToEven_near: "\<bar>of_int (roundTiesToEven x) - x\<bar> \<le> 1 / 2"
proof -
  have "of_int \<lfloor>x\<rfloor> \<le> x" "x < of_int \<lfloor>x\<rfloor> + 1" by linarith+
  then show ?thesis
    by (auto simp: roundTiesToEven_def Let_def abs_le_iff)
qed

lemma roundTiesToEven_int: "roundTiesToEven (of_int n) = n"
  by (simp add: roundTiesToEven_def)

lemma roundTiesToEven_mono_bound:
  assumes "x \<le> of_int n"
  shows "roundTiesToEven x \<le> n"
proof (cases "\<lfloor>x\<rfloor> = n")
  case True
  then have "x = of_int n"
    using assms by (metis antisym of_int_floor_le)
  then show ?thesis
    by (simp add: roundTiesToEven_def)
next
  case False
  moreover have "\<lfloor>x\<rfloor> \<le> n"
    using assms by (simp add: floor_le_iff)
  ultimately have "\<lfloor>x\<rfloor> + 1 \<le> n" by simp
  then show ?thesis
    by (simp add: roundTiesToEven_def Let_def)
qed

lemma roundTiesToEven_nonneg: "0 \<le> q \<Longrightarrow> 0 \<le> roundTiesToEven q"
  by (simp add: roundTiesToEven_def Let_def)

lemma numberValue_nonneg: "numberValue q = Finite neg mag \<Longrightarrow> 0 \<le> mag"
  by (auto simp: numberValue_def Let_def pow2_pos roundTiesToEven_nonneg less_imp_le
      split: if_splits)

text \<open>
  The Number of a positive value is a multiple of the unit in the last place with a
  significand of at most 53 bits, and no further from the value than half a unit.
\<close>

lemma numberValue_nearest:
  assumes "0 < q" and "numberValue q = Finite neg r"
  defines "ulp \<equiv> pow2 (max (floorLog2 q) (- 1022) - 52)"
  shows "\<not> neg \<and> \<bar>r - q\<bar> \<le> ulp / 2
     \<and> (\<exists>n. r = of_int n * ulp \<and> 0 \<le> n \<and> n \<le> 2 ^ 53) \<and> r < pow2 1024"
proof -
  define n where "n = roundTiesToEven (q / ulp)"
  have ulp: "0 < ulp" by (simp add: ulp_def pow2_pos)
  from assms(1,2) have r: "r = of_int n * ulp" and neg: "\<not> neg" and fin: "r < pow2 1024"
    by (auto simp: numberValue_def Let_def n_def ulp_def split: if_splits)
  have "\<bar>of_int n - q / ulp\<bar> \<le> 1 / 2"
    unfolding n_def by (rule roundTiesToEven_near)
  then have "\<bar>of_int n - q / ulp\<bar> * ulp \<le> 1 / 2 * ulp"
    using ulp by (simp add: mult_right_mono less_imp_le)
  moreover have "\<bar>of_int n - q / ulp\<bar> * ulp = \<bar>(of_int n - q / ulp) * ulp\<bar>"
    using ulp by (simp add: abs_mult)
  moreover have "(of_int n - q / ulp) * ulp = r - q"
    using ulp by (simp add: r left_diff_distrib)
  ultimately have near: "\<bar>r - q\<bar> \<le> ulp / 2" by simp
  have "0 \<le> q / ulp" using assms(1) ulp by simp
  then have n0: "0 \<le> n"
    by (simp add: n_def roundTiesToEven_def Let_def)
  have "q < pow2 (floorLog2 q + 1)"
    using floorLog2_bounds [OF assms(1)] by simp
  also have "\<dots> \<le> pow2 (max (floorLog2 q) (- 1022) + 1)"
    by (simp add: pow2_power_int power_int_increasing)
  also have "\<dots> = 2 ^ 53 * ulp"
    by (simp add: ulp_def pow2_diff pow2_add pow2_nat)
  finally have "q / ulp \<le> of_int (2 ^ 53)"
    using ulp by (simp add: pos_divide_le_eq less_imp_le)
  then have "n \<le> 2 ^ 53"
    unfolding n_def by (rule roundTiesToEven_mono_bound)
  with neg near r n0 fin show ?thesis by blast
qed

subsection \<open>Zero amounts\<close>

text \<open>A parsed number has a non-negative magnitude.\<close>

lemma signed_nonneg: "signed negative x = Finite neg mag \<Longrightarrow> \<exists>neg'. x = Finite neg' mag"
  by (cases x) (simp_all add: signed_def)

lemma parseFloat_nonneg: "parseFloat v = Finite neg mag \<Longrightarrow> 0 \<le> mag"
  by (auto simp: parseFloat_def Let_def split: if_splits prod.splits
      dest!: signed_nonneg numberValue_nonneg)

text \<open>Only the number 0 is written with no digit but 0.\<close>

lemma char_of_digit_zero: "0 \<le> n \<Longrightarrow> n < 10 \<Longrightarrow> (char_of (48 + n) = CHR ''0'') = (n = (0::int))"
proof -
  assume a: "0 \<le> n" "n < 10"
  have "char_of (48 + n) = char_of (48::int) \<longleftrightarrow> (48 + n) mod 256 = (48::int) mod 256"
    by (rule char_of_quasi_inj)
  moreover have "char_of (48::int) = CHR ''0''" by code_simp
  ultimately show ?thesis using a by simp
qed

lemma decimalDigits_zeros:
  "0 \<le> n \<Longrightarrow> set (decimalDigits n) \<subseteq> {CHR ''0''} \<Longrightarrow> n = 0"
proof (induction n rule: decimalDigits.induct)
  case (1 n)
  show ?case
  proof (cases "n < 10")
    case True
    then have "decimalDigits n = [char_of (48 + n)]"
      by (subst decimalDigits.simps) simp
    with True "1.prems" show ?thesis
      by (simp add: char_of_digit_zero)
  next
    case False
    then have "decimalDigits n = decimalDigits (n div 10) @ [char_of (48 + n mod 10)]"
      by (subst decimalDigits.simps) simp
    with "1.prems" have "set (decimalDigits (n div 10)) \<subseteq> {CHR ''0''}"
      by simp
    moreover have "0 \<le> n div 10"
      using "1.prems"(1) by simp
    ultimately have "n div 10 = 0"
      using "1.IH" False by simp
    with False "1.prems"(1) show ?thesis by simp
  qed
qed

lemma decimalDigits_0: "decimalDigits 0 = ''0''"
  by code_simp

lemma decimalDigits_nonempty: "decimalDigits n \<noteq> []"
  by (subst decimalDigits.simps) simp

text \<open>The digits written for a number read back as that number.\<close>

lemma decimalDigitsMV_snoc:
  "decimalDigitsMV (ds @ [c]) = 10 * decimalDigitsMV ds + digitValue c"
  by (simp add: decimalDigitsMV_def)

lemma digitValue_char_of: "0 \<le> d \<Longrightarrow> d < 10 \<Longrightarrow> digitValue (char_of (48 + d)) = d"
  by (simp add: digitValue_def)

lemma decimalDigitsMV_decimalDigits: "0 \<le> n \<Longrightarrow> decimalDigitsMV (decimalDigits n) = n"
proof (induction n rule: decimalDigits.induct)
  case (1 n)
  show ?case
  proof (cases "n < 10")
    case True
    then have "decimalDigits n = [char_of (48 + n)]"
      by (subst decimalDigits.simps) simp
    with True "1.prems" show ?thesis
      using decimalDigitsMV_snoc [of "[]"] by (simp add: digitValue_char_of decimalDigitsMV_def)
  next
    case False
    then have "decimalDigits n = decimalDigits (n div 10) @ [char_of (48 + n mod 10)]"
      by (subst decimalDigits.simps) simp
    moreover have "decimalDigitsMV (decimalDigits (n div 10)) = n div 10"
      using "1.IH" False "1.prems" by simp
    ultimately show ?thesis
      by (simp add: decimalDigitsMV_snoc digitValue_char_of)
  qed
qed

text \<open>
  With two fraction digits the result is \<^verbatim>\<open>0.00\<close> exactly for a magnitude below 0.005 that is
  not a negative number; a negative number below zero gets a minus sign.
\<close>

lemma toFixed_2_zero:
  assumes "0 \<le> mag"
  shows "(toFixed 2 (Finite neg mag) = Str ''0.00'') = (\<not> (neg \<and> 0 < mag) \<and> mag < 1 / 200)"
proof (cases "10 ^ 21 \<le> mag")
  case True
  then have "\<not> mag < 1 / 200" by simp
  with True show ?thesis by (simp add: toFixed_def)
next
  case False
  define n where "n = \<lfloor>mag * 10 ^ 2 + 1 / 2\<rfloor>"
  define m where "m = decimalDigits n"
  define z where "z = (if length m \<le> 2 then replicate (2 + 1 - length m) CHR ''0'' @ m else m)"
  define s where "s = (if neg \<and> 0 < mag then ''-'' else [])"
  have res: "toFixed 2 (Finite neg mag) = Str (s @ take (length z - 2) z @ ''.'' @ drop (length z - 2) z)"
    using False by (simp add: toFixed_def Let_def n_def m_def z_def s_def)
  have n0: "0 \<le> n" using assms by (simp add: n_def)
  have n_zero: "(n = 0) = (mag < 1 / 200)"
  proof -
    have "(n = 0) = (n < 1)" using n0 by auto
    also have "\<dots> = (mag * 10 ^ 2 + 1 / 2 < 1)" unfolding n_def by (simp add: floor_less_iff)
    also have "\<dots> = (mag < 1 / 200)" by auto
    finally show ?thesis .
  qed
  have lz: "3 \<le> length z"
    using decimalDigits_nonempty [of n] by (auto simp: z_def m_def)
  show ?thesis
  proof
    assume eq: "toFixed 2 (Finite neg mag) = Str ''0.00''"
    then have e: "s @ take (length z - 2) z @ ''.'' @ drop (length z - 2) z = ''0.00''"
      by (simp add: res)
    have s: "s = []"
    proof (rule ccontr)
      assume "s \<noteq> []"
      then have "s = ''-''" by (simp add: s_def split: if_splits)
      with e show False by simp
    qed
    from e s have e': "take (length z - 2) z @ ''.'' @ drop (length z - 2) z = ''0.00''" by simp
    then have "length (take (length z - 2) z @ ''.'' @ drop (length z - 2) z) = 4" by simp
    then have l3: "length z = 3" using lz by simp
    then obtain a b c where z: "z = [a, b, c]"
      by (auto simp: numeral_3_eq_3 length_Suc_conv)
    with e' have "z = ''000''" by simp
    moreover have "set m \<subseteq> set z"
      by (auto simp: z_def)
    ultimately have "set m \<subseteq> {CHR ''0''}"
      by auto
    then have "n = 0" using n0 decimalDigits_zeros m_def by blast
    with n_zero s show "\<not> (neg \<and> 0 < mag) \<and> mag < 1 / 200"
      by (auto simp: s_def split: if_splits)
  next
    assume a: "\<not> (neg \<and> 0 < mag) \<and> mag < 1 / 200"
    then have "n = 0" using n_zero by simp
    then have "m = ''0''" by (simp add: m_def decimalDigits_0)
    then have "z = ''000''" by (simp add: z_def numeral_2_eq_2)
    moreover have "s = []" using a by (auto simp: s_def)
    ultimately show "toFixed 2 (Finite neg mag) = Str ''0.00''" by (simp add: res)
  qed
qed

lemma isZeroAmount_iff:
  "isZeroAmount v =
     (case parseFloat v of
        NaN \<Rightarrow> False
      | Infinity negative \<Rightarrow> False
      | Finite negative mag \<Rightarrow> \<not> (negative \<and> 0 < mag) \<and> mag < 1 / 200)"
proof (cases "parseFloat v")
  case NaN
  then show ?thesis by (simp add: isZeroAmount_def toFixed_def)
next
  case (Infinity negative)
  then show ?thesis by (simp add: isZeroAmount_def toFixed_def)
next
  case (Finite negative mag)
  then show ?thesis
    using toFixed_2_zero [OF parseFloat_nonneg [OF Finite], of negative]
    by (simp add: isZeroAmount_def)
qed

text \<open>The amounts used as examples, evaluated.\<close>

lemma isZeroAmount_examples:
  "isZeroAmount ''0'' \<and> isZeroAmount ''0.00'' \<and> isZeroAmount ''0.001''
   \<and> \<not> isZeroAmount ''0.005'' \<and> \<not> isZeroAmount ''5.00''
   \<and> \<not> isZeroAmount ''abc'' \<and> \<not> isZeroAmount []
   \<and> parseFloat ''abc'' = NaN \<and> parseFloat [] = NaN"
  by code_simp

text \<open>
  C2, as stated, at the amount \<^verbatim>\<open>0.001\<close>: the claim has \<^verbatim>\<open>isZeroAmount("0.001") = false\<close>, the
  code gives \<^verbatim>\<open>true\<close>, since 0.001 written with two decimals is \<^verbatim>\<open>0.00\<close>.
\<close>

theorem isZeroAmount_0_001: "isZeroAmount ''0.001'' = True"
  using isZeroAmount_examples by simp

text \<open>
  C2, amended. \<^verbatim>\<open>isZeroAmount(value)\<close> is true exactly when the string, parsed as a
  floating-point number and written with two decimals, is \<^verbatim>\<open>0.00\<close>; that is when the parsed
  number is finite, below 0.005 and not a negative number. NaN, which a non-numeric or empty
  string parses to, counts as non-zero. In particular \<^verbatim>\<open>0\<close>, \<^verbatim>\<open>0.00\<close> and \<^verbatim>\<open>0.001\<close> are zero
  amounts, \<^verbatim>\<open>0.005\<close>, \<^verbatim>\<open>abc\<close> and the empty string are not.
\<close>

theorem isZeroAmount_two_decimals:
  "isZeroAmount v = (toFixed 2 (parseFloat v) = Str ''0.00'')
   \<and> isZeroAmount v =
       (case parseFloat v of
          NaN \<Rightarrow> False
        | Infinity negative \<Rightarrow> False
        | Finite negative mag \<Rightarrow> \<not> (negative \<and> 0 < mag) \<and> mag < 1 / 200)
   \<and> parseFloat ''abc'' = NaN \<and> parseFloat [] = NaN
   \<and> isZeroAmount ''0'' = True
   \<and> isZeroAmount ''0.00'' = True
   \<and> isZeroAmount ''0.001'' = True
   \<and> isZeroAmount ''0.005'' = False
   \<and> isZeroAmount ''abc'' = False
   \<and> isZeroAmount [] = False"
proof -
  have "isZeroAmount v = (toFixed 2 (parseFloat v) = Str ''0.00'')"
    by (simp add: isZeroAmount_def)
  then show ?thesis
    using isZeroAmount_iff [of v] isZeroAmount_examples by simp
qed

subsection \<open>The shipping contact of an address\<close>

text \<open>
  C8. For an absent address every field of the contact is present and empty: empty
  strings and an empty list of address lines. For an address the lines are the
  two-element list of \<^verbatim>\<open>line1\<close> and \<^verbatim>\<open>line2\<close>, also when \<^verbatim>\<open>line2\<close> is undefined or empty;
  first and last name, city, state and postal code are copied, and both \<^verbatim>\<open>country\<close> and
  \<^verbatim>\<open>countryCode\<close> are the address's country.
\<close>

theorem getShippingContactFromAddress_maps:
  "getShippingContactFromAddress None =
     \<lparr>givenName = Some [], familyName = Some [], addressLines = Some [], locality = Some [],
      administrativeArea = Some [], ApplePayPaymentContact.postalCode = Some [],
      ApplePayPaymentContact.country = Some [], ApplePayPaymentContact.countryCode = Some []\<rparr>
   \<and> getShippingContactFromAddress (Some a) =
     \<lparr>givenName = firstName a, familyName = lastName a,
      addressLines = Some [line1 a, line2 a],
      locality = ShippingAddress.city a, administrativeArea = ShippingAddress.state a,
      ApplePayPaymentContact.postalCode = ShippingAddress.postalCode a,
      ApplePayPaymentContact.country = ShippingAddress.country a,
      ApplePayPaymentContact.countryCode = ShippingAddress.country a\<rparr>
   \<and> addressLines (getShippingContactFromAddress (Some (a\<lparr>line2 := None\<rparr>))) = Some [line1 a, None]
   \<and> addressLines (getShippingContactFromAddress (Some (a\<lparr>line2 := Some []\<rparr>)))
       = Some [line1 a, Some []]
   \<and> map_option length (addressLines (getShippingContactFromAddress (Some a))) = Some 2"
  by (simp add: getShippingContactFromAddress_def)

subsection \<open>Shipping methods\<close>
























subsection \<open>The payment request\<close>

text \<open>Pushing a line item changes the line items only.\<close>

lemma pushLineItem_fields [simp]:
  "requiredBillingContactFields (pushLineItem l v cond r) = requiredBillingContactFields r"
  "requiredShippingContactFields (pushLineItem l v cond r) = requiredShippingContactFields r"
  "shippingContact (pushLineItem l v cond r) = shippingContact r"
  "ApplePayPaymentRequest.shippingMethods (pushLineItem l v cond r) = ApplePayPaymentRequest.shippingMethods r"
  "ApplePayPaymentRequest.total (pushLineItem l v cond r) = ApplePayPaymentRequest.total r"
  "ApplePayPaymentRequest.countryCode (pushLineItem l v cond r) = ApplePayPaymentRequest.countryCode r"
  "ApplePayPaymentRequest.currencyCode (pushLineItem l v cond r) = ApplePayPaymentRequest.currencyCode r"
  by (simp_all add: pushLineItem_def split: option.splits)

lemma lineItems_pushLineItem:
  "lineItems (pushLineItem l v cond r) =
     lineItems r @
       (case v of
          None \<Rightarrow> []
        | Some a \<Rightarrow> if a \<noteq> [] \<and> cond a then [\<lparr>LineItem.label = l, amount = a\<rparr>] else [])"
  by (simp add: pushLineItem_def split: option.splits)

text \<open>
  C4. For every country code and order the line items are, in this order: a \<^verbatim>\<open>Subtotal\<close>
  item exactly when the subtotal value is present (a non-empty string) and not a zero
  amount, a \<^verbatim>\<open>Sales Tax\<close> item exactly when the tax value is present and not a zero amount,
  and a \<^verbatim>\<open>Shipping\<close> item exactly when the shipping value is present and either not a zero
  amount or the type of the first selected shipping method is \<^verbatim>\<open>PICKUP\<close>; each item carries
  its value as amount. The total is always the item \<^verbatim>\<open>Total\<close> with the total value and the
  type \<^verbatim>\<open>final\<close>. With subtotal 0.00, tax 5.00 and shipping 0.00 the only item is the sales
  tax when no method or an unselected standard method is given, and a shipping item of
  0.00 follows it when a pickup method is selected.
\<close>

theorem createApplePayRequest_lineItems:
  "lineItems (createApplePayRequest arraySort cc order) =
     (case currencyValue (subtotal (amounts (cart (checkoutSession order)))) of
        None \<Rightarrow> []
      | Some a \<Rightarrow> if a \<noteq> [] \<and> \<not> isZeroAmount a
                  then [\<lparr>LineItem.label = ''Subtotal'', amount = a\<rparr>] else [])
     @ (case currencyValue (tax (amounts (cart (checkoutSession order)))) of
          None \<Rightarrow> []
        | Some a \<Rightarrow> if a \<noteq> [] \<and> \<not> isZeroAmount a
                    then [\<lparr>LineItem.label = ''Sales Tax'', amount = a\<rparr>] else [])
     @ (case currencyValue (shippingAndHandling (amounts (cart (checkoutSession order)))) of
          None \<Rightarrow> []
        | Some a \<Rightarrow>
            if a \<noteq> [] \<and>
               (\<not> isZeroAmount a \<or>
                (case find selected
                        (case Cart.shippingMethods (cart (checkoutSession order)) of
                           None \<Rightarrow> [] | Some xs \<Rightarrow> xs) of
                   None \<Rightarrow> False
                 | Some m \<Rightarrow> ShippingMethod.type' m = ''PICKUP''))
            then [\<lparr>LineItem.label = ''Shipping'', amount = a\<rparr>] else [])
   \<and> ApplePayPaymentRequest.total (createApplePayRequest arraySort cc order) =
       \<lparr>TotalItem.label = ''Total'',
        amount = currencyValue (Amounts.total (amounts (cart (checkoutSession order)))),
        type' = ''final''\<rparr>
   \<and> lineItems (createApplePayRequest arraySort cc (exampleOrder None)) =
       [\<lparr>LineItem.label = ''Sales Tax'', amount = ''5.00''\<rparr>]
   \<and> lineItems (createApplePayRequest arraySort cc (exampleOrder (Some [standardMethod]))) =
       [\<lparr>LineItem.label = ''Sales Tax'', amount = ''5.00''\<rparr>]
   \<and> lineItems (createApplePayRequest arraySort cc (exampleOrder (Some [standardMethod, pickupMethod]))) =
       [\<lparr>LineItem.label = ''Sales Tax'', amount = ''5.00''\<rparr>,
        \<lparr>LineItem.label = ''Shipping'', amount = ''0.00''\<rparr>]"
proof -
  have items: "lineItems (createApplePayRequest arraySort cc order) =
     (case currencyValue (subtotal (amounts (cart (checkoutSession order)))) of
        None \<Rightarrow> []
      | Some a \<Rightarrow> if a \<noteq> [] \<and> \<not> isZeroAmount a
                  then [\<lparr>LineItem.label = ''Subtotal'', amount = a\<rparr>] else [])
     @ (case currencyValue (tax (amounts (cart (checkoutSession order)))) of
          None \<Rightarrow> []
        | Some a \<Rightarrow> if a \<noteq> [] \<and> \<not> isZeroAmount a
                    then [\<lparr>LineItem.label = ''Sales Tax'', amount = a\<rparr>] else [])
     @ (case currencyValue (shippingAndHandling (amounts (cart (checkoutSession order)))) of
          None \<Rightarrow> []
        | Some a \<Rightarrow>
            if a \<noteq> [] \<and>
               (\<not> isZeroAmount a \<or>
                (case find selected
                        (case Cart.shippingMethods (cart (checkoutSession order)) of
                           None \<Rightarrow> [] | Some xs \<Rightarrow> xs) of
                   None \<Rightarrow> False
                 | Some m \<Rightarrow> ShippingMethod.type' m = ''PICKUP''))
            then [\<lparr>LineItem.label = ''Shipping'', amount = a\<rparr>] else [])" for order
    by (simp add: createApplePayRequest_def Let_def lineItems_pushLineItem split: option.splits)
  have total: "ApplePayPaymentRequest.total (createApplePayRequest arraySort cc order) =
       \<lparr>TotalItem.label = ''Total'',
        amount = currencyValue (Amounts.total (amounts (cart (checkoutSession order)))),
        type' = ''final''\<rparr>"
    by (simp add: createApplePayRequest_def Let_def)
  have ex1: "lineItems (createApplePayRequest arraySort cc (exampleOrder None)) =
       [\<lparr>LineItem.label = ''Sales Tax'', amount = ''5.00''\<rparr>]"
    using isZeroAmount_examples
    by (simp add: items exampleOrder_def usd_def)
  have ex2: "lineItems (createApplePayRequest arraySort cc (exampleOrder (Some [standardMethod]))) =
       [\<lparr>LineItem.label = ''Sales Tax'', amount = ''5.00''\<rparr>]"
    using isZeroAmount_examples
    by (simp add: items exampleOrder_def usd_def standardMethod_def)
  have ex3: "lineItems (createApplePayRequest arraySort cc (exampleOrder (Some [standardMethod, pickupMethod]))) =
       [\<lparr>LineItem.label = ''Sales Tax'', amount = ''5.00''\<rparr>,
        \<lparr>LineItem.label = ''Shipping'', amount = ''0.00''\<rparr>]"
    using isZeroAmount_examples
    by (simp add: items exampleOrder_def usd_def standardMethod_def pickupMethod_def)
  show ?thesis
    using items [of order] total ex1 ex2 ex3 by (intro conjI)
qed

theorem createApplePayRequest_lineItems_witness:
  "lineItems (createApplePayRequest insertionSort ''US'' (exampleOrder (Some [standardMethod, pickupMethod]))) =
     [\<lparr>LineItem.label = ''Sales Tax'', amount = ''5.00''\<rparr>,
      \<lparr>LineItem.label = ''Shipping'', amount = ''0.00''\<rparr>]
   \<and> ApplePayPaymentRequest.total
        (createApplePayRequest insertionSort ''US'' (exampleOrder (Some [standardMethod, pickupMethod])))
      = \<lparr>TotalItem.label = ''Total'', amount = Some ''5.00'', type' = ''final''\<rparr>"
proof -
  note t = createApplePayRequest_lineItems
    [of insertionSort "''US''" "exampleOrder (Some [standardMethod, pickupMethod])"]
  from t have "lineItems (createApplePayRequest insertionSort ''US''
      (exampleOrder (Some [standardMethod, pickupMethod]))) =
     [\<lparr>LineItem.label = ''Sales Tax'', amount = ''5.00''\<rparr>,
      \<lparr>LineItem.label = ''Shipping'', amount = ''0.00''\<rparr>]"
    by blast
  moreover from t have "ApplePayPaymentRequest.total
        (createApplePayRequest insertionSort ''US'' (exampleOrder (Some [standardMethod, pickupMethod])))
      = \<lparr>TotalItem.label = ''Total'',
         amount = currencyValue (Amounts.total (amounts (cart (checkoutSession
           (exampleOrder (Some [standardMethod, pickupMethod])))))),
         type' = ''final''\<rparr>"
    by blast
  ultimately show ?thesis
    by (simp add: exampleOrder_def usd_def)
qed

text \<open>
  C6. For every country code and order the required billing contact fields are
  \<^verbatim>\<open>postalAddress\<close>, \<^verbatim>\<open>name\<close>, \<^verbatim>\<open>phone\<close>; the required shipping contact fields are
  \<^verbatim>\<open>postalAddress\<close>, \<^verbatim>\<open>name\<close>, \<^verbatim>\<open>phone\<close>, \<^verbatim>\<open>email\<close> when the order requires a shipping
  address and \<^verbatim>\<open>name\<close>, \<^verbatim>\<open>phone\<close>, \<^verbatim>\<open>email\<close> otherwise; the shipping contact is the contact
  of the order's shipping address when its given name is a non-empty string, and the
  object \<^verbatim>\<open>{}\<close> otherwise.
\<close>

theorem createApplePayRequest_contact_fields:
  "requiredBillingContactFields (createApplePayRequest arraySort cc order) =
     [''postalAddress'', ''name'', ''phone'']
   \<and> requiredShippingContactFields (createApplePayRequest arraySort cc order) =
       (if isShippingAddressRequired (flags (checkoutSession order))
        then [''postalAddress'', ''name'', ''phone'', ''email'']
        else [''name'', ''phone'', ''email''])
   \<and> shippingContact (createApplePayRequest arraySort cc order) =
       (if truthy (givenName (getShippingContactFromAddress (shippingAddress (cart (checkoutSession order)))))
        then getShippingContactFromAddress (shippingAddress (cart (checkoutSession order)))
        else emptyObject)"
  by (simp add: createApplePayRequest_def Let_def)

theorem createApplePayRequest_contact_fields_witness:
  "requiredBillingContactFields (createApplePayRequest insertionSort ''US'' (exampleOrder None)) =
     [''postalAddress'', ''name'', ''phone'']
   \<and> requiredShippingContactFields (createApplePayRequest insertionSort ''US'' (exampleOrder None)) =
       [''postalAddress'', ''name'', ''phone'', ''email'']
   \<and> givenName (shippingContact (createApplePayRequest insertionSort ''US'' (exampleOrder None))) =
       Some ''Ada''"
  using createApplePayRequest_contact_fields [of insertionSort "''US''" "exampleOrder None"]
  by (simp add: exampleOrder_def getShippingContactFromAddress_def truthy_def)

subsection \<open>Validation of a shipping contact\<close>

text \<open>The country codes used as examples, in upper case.\<close>

lemma toUpperCase_examples:
  "toUpperCase ''US'' = ''US'' \<and> toUpperCase ''fr'' = ''FR'' \<and> toUpperCase ''ZZ'' = ''ZZ''"
  by code_simp

text \<open>The errors, check by check, and the address.\<close>

lemma validateShippingContact_errors:
  "errors (validateShippingContact COUNTRY contact) =
     (if truthy (Option.bind contact locality) then []
      else [\<lparr>code = ''shippingContactInvalid'', contactField = ''locality'',
             message = ''City is invalid''\<rparr>])
     @ (if truthyMaybe (country_code (shipping_address (validateShippingContact COUNTRY contact)))
        then []
        else [\<lparr>code = ''shippingContactInvalid'', contactField = ''countryCode'',
               message = ''Country code is invalid''\<rparr>])
     @ (if country_code (shipping_address (validateShippingContact COUNTRY contact))
             = property COUNTRY ''US''
           \<and> \<not> truthy (Option.bind contact administrativeArea)
        then [\<lparr>code = ''shippingContactInvalid'', contactField = ''administrativeArea'',
               message = ''State is invalid''\<rparr>]
        else [])
     @ (if truthy (Option.bind contact ApplePayPaymentContact.postalCode) then []
        else [\<lparr>code = ''shippingContactInvalid'', contactField = ''postalCode'',
               message = ''Postal code is invalid''\<rparr>])"
  by (simp add: validateShippingContact_def Let_def)

lemma validateShippingContact_address:
  "shipping_address (validateShippingContact COUNTRY contact) =
     \<lparr>city = Option.bind contact locality,
      state = Option.bind contact administrativeArea,
      country_code =
        (case Option.bind contact ApplePayPaymentContact.countryCode of
           None \<Rightarrow> Null
         | Some c \<Rightarrow>
             if c = [] then Null
             else (case COUNTRY (toUpperCase c) of None \<Rightarrow> Undefined | Some v \<Rightarrow> Def v)),
      postal_code = Option.bind contact ApplePayPaymentContact.postalCode\<rparr>"
  by (simp add: validateShippingContact_def Let_def property_def split: option.splits)

text \<open>
  C3, as stated, at the contact \<^verbatim>\<open>{ countryCode: 'ZZ' }\<close> and a table without \<^verbatim>\<open>ZZ\<close>: the claim
  has the address hold the resolved country code or \<^verbatim>\<open>null\<close>; the code reads
  \<^verbatim>\<open>COUNTRY['ZZ']\<close>, which is \<^verbatim>\<open>undefined\<close>.
\<close>

theorem validateShippingContact_unknown_code:
  "country_code (shipping_address (validateShippingContact (map_of exampleCountries)
      (Some (emptyObject\<lparr>ApplePayPaymentContact.countryCode := Some ''ZZ''\<rparr>)))) = Undefined"
  using toUpperCase_examples
  by (simp add: validateShippingContact_address emptyObject_def exampleCountries_def)

text \<open>
  C3, amended. Let the table hold \<^verbatim>\<open>US\<close> with a non-empty value. For every contact, the
  absent one and \<^verbatim>\<open>{}\<close> included, the errors are one for each failing check in the order
  locality, countryCode, administrativeArea, postalCode: the city is missing or empty; the
  country code did not resolve; the country code resolved to the United States and the
  state is missing or empty; the postal code is missing or empty. The address is returned
  in every case, with the city, state and postal code of the contact and, as country code,
  the table's value for the upper-cased code, \<^verbatim>\<open>null\<close> when the contact has no country code or
  an empty one, and \<^verbatim>\<open>undefined\<close> when the table lacks the upper-cased code. The absent
  contact and \<^verbatim>\<open>{}\<close> give the three errors on locality, countryCode and postalCode; the
  contact with locality X, country code US and postal code 10001 gives the one error on
  administrativeArea.
\<close>

theorem validateShippingContact_checks:
  assumes "COUNTRY ''US'' = Some us" and "us \<noteq> []"
  shows "errors (validateShippingContact COUNTRY contact) =
       (if truthy (Option.bind contact locality) then []
        else [\<lparr>code = ''shippingContactInvalid'', contactField = ''locality'',
               message = ''City is invalid''\<rparr>])
       @ (if truthyMaybe (country_code (shipping_address (validateShippingContact COUNTRY contact)))
          then []
          else [\<lparr>code = ''shippingContactInvalid'', contactField = ''countryCode'',
                 message = ''Country code is invalid''\<rparr>])
       @ (if country_code (shipping_address (validateShippingContact COUNTRY contact)) = Def us
             \<and> \<not> truthy (Option.bind contact administrativeArea)
          then [\<lparr>code = ''shippingContactInvalid'', contactField = ''administrativeArea'',
                 message = ''State is invalid''\<rparr>]
          else [])
       @ (if truthy (Option.bind contact ApplePayPaymentContact.postalCode) then []
          else [\<lparr>code = ''shippingContactInvalid'', contactField = ''postalCode'',
                 message = ''Postal code is invalid''\<rparr>])
     \<and> shipping_address (validateShippingContact COUNTRY contact) =
         \<lparr>city = Option.bind contact locality,
          state = Option.bind contact administrativeArea,
          country_code =
            (case Option.bind contact ApplePayPaymentContact.countryCode of
               None \<Rightarrow> Null
             | Some c \<Rightarrow>
                 if c = [] then Null
                 else (case COUNTRY (toUpperCase c) of None \<Rightarrow> Undefined | Some v \<Rightarrow> Def v)),
          postal_code = Option.bind contact ApplePayPaymentContact.postalCode\<rparr>
     \<and> map contactField (errors (validateShippingContact COUNTRY None)) =
         [''locality'', ''countryCode'', ''postalCode'']
     \<and> map contactField (errors (validateShippingContact COUNTRY (Some emptyObject))) =
         [''locality'', ''countryCode'', ''postalCode'']
     \<and> map contactField (errors (validateShippingContact COUNTRY
           (Some (emptyObject\<lparr>locality := Some ''X'',
                              ApplePayPaymentContact.countryCode := Some ''US'',
                              ApplePayPaymentContact.postalCode := Some ''10001''\<rparr>)))) =
         [''administrativeArea'']"
proof -
  have us: "property COUNTRY ''US'' = Def us"
    using assms by (simp add: property_def)
  have absent: "map contactField (errors (validateShippingContact COUNTRY None)) =
         [''locality'', ''countryCode'', ''postalCode'']"
    by (simp add: validateShippingContact_errors validateShippingContact_address us
        truthy_def truthyMaybe_def)
  have empty: "map contactField (errors (validateShippingContact COUNTRY (Some emptyObject))) =
         [''locality'', ''countryCode'', ''postalCode'']"
    by (simp add: validateShippingContact_errors validateShippingContact_address us
        truthy_def truthyMaybe_def emptyObject_def)
  have state: "map contactField (errors (validateShippingContact COUNTRY
           (Some (emptyObject\<lparr>locality := Some ''X'',
                              ApplePayPaymentContact.countryCode := Some ''US'',
                              ApplePayPaymentContact.postalCode := Some ''10001''\<rparr>)))) =
         [''administrativeArea'']"
    using assms toUpperCase_examples
    by (simp add: validateShippingContact_errors validateShippingContact_address us
        truthy_def truthyMaybe_def emptyObject_def)
  show ?thesis
    using validateShippingContact_errors [of COUNTRY contact]
      validateShippingContact_address [of COUNTRY contact] absent empty state
    by (simp only: us)
qed

theorem validateShippingContact_checks_witness:
  "map contactField (errors (validateShippingContact (map_of exampleCountries)
     (Some (emptyObject\<lparr>locality := Some ''X'',
                        ApplePayPaymentContact.countryCode := Some ''US'',
                        ApplePayPaymentContact.postalCode := Some ''10001''\<rparr>)))) =
     [''administrativeArea'']
   \<and> map contactField (errors (validateShippingContact (map_of exampleCountries) (Some emptyObject))) =
     [''locality'', ''countryCode'', ''postalCode'']"
proof -
  have "map_of exampleCountries ''US'' = Some ''US''" and "''US'' \<noteq> []"
    by (simp_all add: exampleCountries_def)
  with validateShippingContact_checks [of "map_of exampleCountries" "''US''"] show ?thesis
    by blast
qed

text \<open>A complete contact whose code resolves has no error, whatever the country.\<close>

lemma validateShippingContact_valid:
  assumes "truthy (locality c)" and "truthy (administrativeArea c)"
    and "truthy (ApplePayPaymentContact.postalCode c)"
    and "ApplePayPaymentContact.countryCode c = Some cc" and "cc \<noteq> []"
    and "COUNTRY (toUpperCase cc) = Some v" and "v \<noteq> []"
  shows "errors (validateShippingContact COUNTRY (Some c)) = []"
    and "shipping_address (validateShippingContact COUNTRY (Some c)) =
         \<lparr>city = locality c, state = administrativeArea c, country_code = Def v,
          postal_code = ApplePayPaymentContact.postalCode c\<rparr>"
  using assms
  by (simp_all add: validateShippingContact_errors validateShippingContact_address truthyMaybe_def)

text \<open>
  C5, as stated, at a complete French contact whose country code is written \<^verbatim>\<open>fr\<close>: the
  claim has the country code of the address equal the contact's; the code returns the
  table's value for the upper-cased code, \<^verbatim>\<open>FR\<close>.
\<close>

theorem validateShippingContact_lower_case_code:
  "ApplePayPaymentContact.countryCode exampleContact = Some ''fr''
   \<and> country_code (shipping_address (validateShippingContact (map_of exampleCountries)
        (Some exampleContact))) \<noteq> Def ''fr''"
  using toUpperCase_examples
  by (simp add: validateShippingContact_address exampleContact_def exampleCountries_def)

text \<open>
  C5, amended. For every contact whose locality, administrative area, postal code and
  country code are present and non-empty and whose upper-cased country code resolves to a
  non-empty value other than that of the United States, there is no error, and city, state
  and postal code of the address are those of the contact; the country code of the address
  is the table's value for the upper-cased code, which is the contact's country code
  exactly when the table's value is written as the contact wrote its code.
\<close>

theorem validateShippingContact_round_trip:
  assumes "truthy (locality c)" and "truthy (administrativeArea c)"
    and "truthy (ApplePayPaymentContact.postalCode c)"
    and "ApplePayPaymentContact.countryCode c = Some cc" and "cc \<noteq> []"
    and "COUNTRY (toUpperCase cc) = Some v" and "v \<noteq> []"
    and "Def v \<noteq> property COUNTRY ''US''"
  shows "errors (validateShippingContact COUNTRY (Some c)) = []
     \<and> shipping_address (validateShippingContact COUNTRY (Some c)) =
         \<lparr>city = locality c, state = administrativeArea c, country_code = Def v,
          postal_code = ApplePayPaymentContact.postalCode c\<rparr>
     \<and> (country_code (shipping_address (validateShippingContact COUNTRY (Some c))) = Def cc)
         = (v = cc)"
  using assms(1-7) validateShippingContact_valid [of c cc COUNTRY v] by simp

theorem validateShippingContact_round_trip_witness:
  "errors (validateShippingContact (map_of exampleCountries) (Some exampleContact)) = []
   \<and> shipping_address (validateShippingContact (map_of exampleCountries) (Some exampleContact)) =
       \<lparr>city = Some ''Paris'', state = Some ''IDF'', country_code = Def ''FR'',
        postal_code = Some ''75002''\<rparr>"
proof -
  have "truthy (locality exampleContact)" "truthy (administrativeArea exampleContact)"
    "truthy (ApplePayPaymentContact.postalCode exampleContact)"
    "ApplePayPaymentContact.countryCode exampleContact = Some ''fr''" "''fr'' \<noteq> []"
    "map_of exampleCountries (toUpperCase ''fr'') = Some ''FR''" "''FR'' \<noteq> []"
    "Def ''FR'' \<noteq> property (map_of exampleCountries) ''US''"
    using toUpperCase_examples
    by (simp_all add: exampleContact_def exampleCountries_def truthy_def property_def)
  with validateShippingContact_round_trip
      [of exampleContact "''fr''" "map_of exampleCountries" "''FR''"]
  show ?thesis
    by (simp add: exampleContact_def)
qed

subsection \<open>Exceptions\<close>

lemma isJSON_result:
  "isJSON stringify parse json =
     Inr (case stringify json of
            Inl e \<Rightarrow> False
          | Inr s \<Rightarrow> (case parse s of Inl e \<Rightarrow> False | Inr v \<Rightarrow> True))"
  by (simp add: isJSON_def split: sum.splits)




end
